theory Spec2Isabelle
  imports Main
begin

section \<open>The hyper request builder (src/hyper.go)\<close>

text \<open>
  A shallow embedding of the Go package \<^verbatim>\<open>hyper\<close>: a fluent builder around
  \<^verbatim>\<open>net/http\<close>. A builder (\<^verbatim>\<open>*Request\<close>) is passed as a value and returned updated by
  every method, because each method mutates its receiver and returns it. The objects that
  the builder reaches through Go reference types and that \<^verbatim>\<open>Clone\<close> copies, the header map
  and the \<^verbatim>\<open>*url.URL\<close>, live in an explicit store, so that sharing between a builder and
  its clone is a property that is proved rather than built in. Run-time panics (nil pointer
  dereference, the nil context check of \<^verbatim>\<open>net/http\<close>) are the \<open>Inl\<close> results.

  Library functions whose results the package only passes on (\<^verbatim>\<open>url.Parse\<close>,
  \<^verbatim>\<open>url.ParseQuery\<close>, \<^verbatim>\<open>Values.Encode\<close>, \<^verbatim>\<open>json.Marshal\<close>, \<^verbatim>\<open>Decoder.Decode\<close>) are
  parameters of the functions that call them. A transport is a function that returns its
  pair of results; a transport that panics, blocks or writes to the request is outside the
  model.
\<close>

subsection \<open>Errors\<close>

text \<open>
  A Go \<^verbatim>\<open>error\<close> is kept as the expression that built it: \<^verbatim>\<open>errors.New(msg)\<close>,
  \<^verbatim>\<open>fmt.Errorf(format, args...)\<close> with its format string and arguments, or an error that
  comes out of a library, a transport or a hook, identified by its message.
\<close>

datatype error =
    errors_New string
  | fmt_Errorf string "fmt_arg list"
  | lib_error string
and fmt_arg =
    AInt int
  | AStr string
  | AErr error

datatype panic = nil_pointer_dereference | nil_context

subsection \<open>Streams, responses, URLs and headers\<close>

text \<open>
  An \<^verbatim>\<open>io.ReadCloser\<close> is described by the bytes it delivers, the error its \<^verbatim>\<open>Read\<close>
  reports after them (\<open>None\<close> is \<^verbatim>\<open>io.EOF\<close>, a clean end), what its \<^verbatim>\<open>Close\<close> returns, and
  whether \<^verbatim>\<open>Close\<close> has been called. The read position is not tracked.
\<close>

record ReadCloser =
  data :: string
  read_error :: "error option"
  close_error :: "error option"
  is_closed :: bool

definition Close :: "ReadCloser \<Rightarrow> error option \<times> ReadCloser" where
  "Close b = (close_error b, b\<lparr>is_closed := True\<rparr>)"

definition io_ReadAll :: "ReadCloser \<Rightarrow> string \<times> error option" where
  "io_ReadAll b = (data b, read_error b)"

text \<open>\<^verbatim>\<open>io.NopCloser(bytes.NewBuffer(data))\<close>: reads \<open>data\<close>, never fails, \<^verbatim>\<open>Close\<close> returns nil.\<close>

definition io_NopCloser :: "string \<Rightarrow> ReadCloser" where
  "io_NopCloser d = \<lparr>data = d, read_error = None, close_error = None, is_closed = False\<rparr>"

record http_Response =
  StatusCode :: int
  Status :: string
  resp_Body :: "ReadCloser option"

text \<open>\<^verbatim>\<open>type Response struct { *http.Response }\<close>; the embedded pointer may be nil.\<close>

datatype Response = Response "http_Response option"

record URL =
  Scheme :: string
  Host :: string
  Path :: string
  RawQuery :: string
  Fragment :: string

text \<open>\<^verbatim>\<open>http.Header\<close> and \<^verbatim>\<open>url.Values\<close> are both \<^verbatim>\<open>map[string][]string\<close>.\<close>

type_synonym http_Header = "string \<rightharpoonup> string list"
type_synonym url_Values = "string \<rightharpoonup> string list"

datatype go_context = Background | Ctx nat

type_synonym addr = nat

record http_Request =
  Method :: string
  URL :: "addr option"
  Header :: addr
  req_Body :: "ReadCloser option"
  ctx :: "go_context option"

subsection \<open>Header keys (net/textproto)\<close>

text \<open>
  \<^verbatim>\<open>Header.Set\<close> and \<^verbatim>\<open>Header.Add\<close> store under \<^verbatim>\<open>textproto.CanonicalMIMEHeaderKey(key)\<close>:
  a key made of token bytes only gets an upper-case letter first and after each hyphen and
  lower-case letters elsewhere; any other key is left as it is.
\<close>

definition validHeaderFieldByte :: "char \<Rightarrow> bool" where
  "validHeaderFieldByte c =
     (let n = (of_char c :: nat) in
        n \<in> {33, 35, 36, 37, 38, 39, 42, 43, 45, 46, 94, 95, 96, 124, 126}
        \<or> (48 \<le> n \<and> n \<le> 57) \<or> (65 \<le> n \<and> n \<le> 90) \<or> (97 \<le> n \<and> n \<le> 122))"

fun canonical_case :: "bool \<Rightarrow> string \<Rightarrow> string" where
  "canonical_case upper [] = []"
| "canonical_case upper (c # cs) =
     (let n = (of_char c :: nat);
          c' = (if upper \<and> 97 \<le> n \<and> n \<le> 122 then char_of (n - 32)
                else if \<not> upper \<and> 65 \<le> n \<and> n \<le> 90 then char_of (n + 32)
                else c)
      in c' # canonical_case (c' = CHR ''-'') cs)"

definition CanonicalMIMEHeaderKey :: "string \<Rightarrow> string" where
  "CanonicalMIMEHeaderKey s =
     (if list_all validHeaderFieldByte s then canonical_case True s else s)"

definition Header_Set :: "http_Header \<Rightarrow> string \<Rightarrow> string \<Rightarrow> http_Header" where
  "Header_Set h key v = h(CanonicalMIMEHeaderKey key \<mapsto> [v])"

definition Header_Add :: "http_Header \<Rightarrow> string \<Rightarrow> string \<Rightarrow> http_Header" where
  "Header_Add h key v =
     h(CanonicalMIMEHeaderKey key \<mapsto>
         (case h (CanonicalMIMEHeaderKey key) of None \<Rightarrow> [] | Some vs \<Rightarrow> vs) @ [v])"

text \<open>\<^verbatim>\<open>Values.Add\<close>: append under the key as given.\<close>

definition Values_Add :: "url_Values \<Rightarrow> string \<Rightarrow> string \<Rightarrow> url_Values" where
  "Values_Add q key v = q(key \<mapsto> (case q key of None \<Rightarrow> [] | Some vs \<Rightarrow> vs) @ [v])"

subsection \<open>Clients, the builder and the store\<close>

text \<open>
  A transport is handed the \<^verbatim>\<open>*http.Request\<close> and can follow its references, so it is a
  function of the request and of the header and URL heaps. It returns the pair
  \<^verbatim>\<open>(*http.Response, error)\<close>, either of which may be nil.
\<close>

type_synonym transport =
  "http_Request option \<Rightarrow> (addr \<Rightarrow> http_Header) \<Rightarrow> (addr \<Rightarrow> URL) \<Rightarrow>
     http_Response option \<times> error option"

text \<open>A \<^verbatim>\<open>Clienter\<close> value: the package's \<^verbatim>\<open>defaultClient\<close> or a client the caller injected.\<close>

datatype Clienter = DefaultClient | Injected transport

text \<open>
  A response hook \<^verbatim>\<open>func(*http.Response) error\<close>. It may dereference a nil response, as
  \<^verbatim>\<open>Check200\<close> does, so its result is a panic or the returned error. A hook is taken to
  inspect the response only: one that reads or closes the body is outside the model.
\<close>

type_synonym hook = "http_Response option \<Rightarrow> panic + error option"

record Request =
  client :: "Clienter option"
  request :: "http_Request option"
  err :: "error option"
  onResponseCheck :: "hook option"

text \<open>
  The store: the header maps and URLs allocated so far (addresses below the \<open>_next\<close>
  counters), the behaviour of \<^verbatim>\<open>http.DefaultClient\<close>, and the log of every call of a
  client's \<^verbatim>\<open>Do\<close>, oldest first.
\<close>

record world =
  Headers :: "addr \<Rightarrow> http_Header"
  Headers_next :: addr
  URLs :: "addr \<Rightarrow> URL"
  URLs_next :: addr
  defaultClient :: transport
  calls :: "(Clienter \<times> http_Request option) list"

definition Clienter_Do :: "world \<Rightarrow> Clienter \<Rightarrow> http_Request option \<Rightarrow>
    http_Response option \<times> error option" where
  "Clienter_Do w c q =
     (case c of
        DefaultClient \<Rightarrow> defaultClient w q (Headers w) (URLs w)
      | Injected t \<Rightarrow> t q (Headers w) (URLs w))"

definition new_Header :: "http_Header \<Rightarrow> world \<Rightarrow> addr \<times> world" where
  "new_Header h w =
     (Headers_next w,
      w\<lparr>Headers := (Headers w)(Headers_next w := h), Headers_next := Suc (Headers_next w)\<rparr>)"

definition new_URL :: "URL \<Rightarrow> world \<Rightarrow> addr \<times> world" where
  "new_URL u w =
     (URLs_next w,
      w\<lparr>URLs := (URLs w)(URLs_next w := u), URLs_next := Suc (URLs_next w)\<rparr>)"

text \<open>The client that \<^verbatim>\<open>Do\<close> calls: the injected one, or \<^verbatim>\<open>defaultClient\<close> when none is set.\<close>

definition client_or_default :: "Request \<Rightarrow> Clienter" where
  "client_or_default r = (case client r of None \<Rightarrow> DefaultClient | Some c \<Rightarrow> c)"

subsection \<open>Check200 and the response wrapper\<close>

definition Check200 :: hook where
  "Check200 r =
     (case r of
        None \<Rightarrow> Inl nil_pointer_dereference
      | Some h \<Rightarrow>
          if StatusCode h \<noteq> 200
          then Inr (Some (fmt_Errorf ''[%v] %v'' [AInt (StatusCode h), AStr (Status h)]))
          else Inr None)"

text \<open>
  \<^verbatim>\<open>Raw\<close>: \<^verbatim>\<open>defer r.Body.Close(); return io.ReadAll(r.Body)\<close>. The result of the deferred
  \<^verbatim>\<open>Close\<close> is dropped.
\<close>

definition Raw :: "Response \<Rightarrow> panic + (string \<times> error option) \<times> Response" where
  "Raw r =
     (case r of
        Response None \<Rightarrow> Inl nil_pointer_dereference
      | Response (Some h) \<Rightarrow>
          (case resp_Body h of
             None \<Rightarrow> Inl nil_pointer_dereference
           | Some b \<Rightarrow>
               Inr (io_ReadAll b, Response (Some (h\<lparr>resp_Body := Some (snd (Close b))\<rparr>)))))"

text \<open>
  \<^verbatim>\<open>ParseJson\<close>. The parameter \<open>json_Decode\<close> is \<^verbatim>\<open>json.NewDecoder(body).Decode(i)\<close>: from
  the stream and the destination as it is, the error (if any) and the destination as the
  decoder leaves it. The result is the returned error, the response with its body as
  \<^verbatim>\<open>ParseJson\<close> leaves it, and the destination.
\<close>

definition ParseJson :: "(ReadCloser \<Rightarrow> 'd \<Rightarrow> error option \<times> 'd) \<Rightarrow> Response \<Rightarrow> 'd \<Rightarrow>
    panic + error option \<times> Response \<times> 'd" where
  "ParseJson json_Decode r i =
     (case r of
        Response None \<Rightarrow> Inl nil_pointer_dereference
      | Response (Some h) \<Rightarrow>
          (case resp_Body h of
             None \<Rightarrow> Inl nil_pointer_dereference
           | Some b \<Rightarrow>
               (case json_Decode b i of
                  (Some e, i') \<Rightarrow> Inr (Some e, r, i')
                | (None, i') \<Rightarrow>
                    Inr (fst (Close b),
                         Response (Some (h\<lparr>resp_Body := Some (snd (Close b))\<rparr>)), i'))))"

subsection \<open>Construction and configuration\<close>

text \<open>\<^verbatim>\<open>New\<close> allocates the header map with \<^verbatim>\<open>make(http.Header)\<close>.\<close>

definition New :: "world \<Rightarrow> Request \<times> world" where
  "New w =
     (case new_Header Map.empty w of
        (a, w') \<Rightarrow>
          (\<lparr>client = None,
            request = Some \<lparr>Method = [], URL = None, Header = a, req_Body = None, ctx = None\<rparr>,
            err = None,
            onResponseCheck = None\<rparr>, w'))"

text \<open>The six method setters assign \<^verbatim>\<open>r.request.Method\<close>.\<close>

definition set_Method :: "string \<Rightarrow> Request \<Rightarrow> world \<Rightarrow> panic + Request \<times> world" where
  "set_Method m r w =
     (case request r of
        None \<Rightarrow> Inl nil_pointer_dereference
      | Some q \<Rightarrow> Inr (r\<lparr>request := Some (q\<lparr>Method := m\<rparr>)\<rparr>, w))"

definition Get :: "Request \<Rightarrow> world \<Rightarrow> panic + Request \<times> world" where
  "Get = set_Method ''GET''"

definition Post :: "Request \<Rightarrow> world \<Rightarrow> panic + Request \<times> world" where
  "Post = set_Method ''POST''"

definition Delete :: "Request \<Rightarrow> world \<Rightarrow> panic + Request \<times> world" where
  "Delete = set_Method ''DELETE''"

definition Put :: "Request \<Rightarrow> world \<Rightarrow> panic + Request \<times> world" where
  "Put = set_Method ''PUT''"

definition Patch :: "Request \<Rightarrow> world \<Rightarrow> panic + Request \<times> world" where
  "Patch = set_Method ''PATCH''"

definition Options :: "Request \<Rightarrow> world \<Rightarrow> panic + Request \<times> world" where
  "Options = set_Method ''OPTIONS''"

definition SetClient :: "Clienter option \<Rightarrow> Request \<Rightarrow> world \<Rightarrow> panic + Request \<times> world" where
  "SetClient c r w = Inr (r\<lparr>client := c\<rparr>, w)"

definition OnResponseCheck :: "hook option \<Rightarrow> Request \<Rightarrow> world \<Rightarrow> panic + Request \<times> world" where
  "OnResponseCheck f r w = Inr (r\<lparr>onResponseCheck := f\<rparr>, w)"

text \<open>
  The loop of \<^verbatim>\<open>SetHeader\<close>: \<^verbatim>\<open>Header.Set\<close> at index 0, \<^verbatim>\<open>Header.Add\<close> at every later
  index.
\<close>

fun SetHeader_loop :: "string \<Rightarrow> nat \<Rightarrow> string list \<Rightarrow> http_Header \<Rightarrow> http_Header" where
  "SetHeader_loop key index [] h = h"
| "SetHeader_loop key index (v # vs) h =
     SetHeader_loop key (Suc index) vs
       (if index = 0 then Header_Set h key v else Header_Add h key v)"

definition SetHeader :: "string \<Rightarrow> string list \<Rightarrow> Request \<Rightarrow> world \<Rightarrow> panic + Request \<times> world" where
  "SetHeader key vals r w =
     (if length vals = 0
      then Inr (r\<lparr>err := Some (fmt_Errorf ''missing values for set header %q'' [AStr key])\<rparr>, w)
      else
        (case request r of
           None \<Rightarrow> Inl nil_pointer_dereference
         | Some q \<Rightarrow>
             Inr (r, w\<lparr>Headers := (Headers w)
                          (Header q := SetHeader_loop key 0 vals (Headers w (Header q)))\<rparr>)))"

text \<open>
  \<^verbatim>\<open>SetQueryParam\<close>. \<open>url_ParseQuery\<close> is what \<^verbatim>\<open>URL.Query()\<close> makes of the raw query
  (it drops the parse error), \<open>Values_Encode\<close> is \<^verbatim>\<open>Values.Encode\<close>.
\<close>

definition SetQueryParam :: "(string \<Rightarrow> url_Values) \<Rightarrow> (url_Values \<Rightarrow> string) \<Rightarrow>
    string \<Rightarrow> string \<Rightarrow> Request \<Rightarrow> world \<Rightarrow> panic + Request \<times> world" where
  "SetQueryParam url_ParseQuery Values_Encode key v r w =
     (case request r of
        None \<Rightarrow> Inl nil_pointer_dereference
      | Some q \<Rightarrow>
          (case URL q of
             None \<Rightarrow> Inr (r\<lparr>err := Some (errors_New ''cannot add query param to nil url'')\<rparr>, w)
           | Some a \<Rightarrow>
               Inr (r, w\<lparr>URLs := (URLs w)
                            (a := (URLs w a)\<lparr>RawQuery :=
                               Values_Encode
                                 (Values_Add (url_ParseQuery (RawQuery (URLs w a))) key v)\<rparr>)\<rparr>)))"

text \<open>\<^verbatim>\<open>GetHeader\<close> returns the header map; here, its contents in the given store.\<close>

definition GetHeader :: "Request \<Rightarrow> world \<Rightarrow> panic + http_Header" where
  "GetHeader r w =
     (case request r of
        None \<Rightarrow> Inl nil_pointer_dereference
      | Some q \<Rightarrow> Inr (Headers w (Header q)))"

text \<open>\<^verbatim>\<open>Url\<close>. \<open>url_Parse\<close> is \<^verbatim>\<open>url.Parse\<close>, which returns a fresh \<^verbatim>\<open>*url.URL\<close> or an error.\<close>

definition Url :: "(string \<Rightarrow> error + URL) \<Rightarrow> string \<Rightarrow> Request \<Rightarrow> world \<Rightarrow>
    panic + Request \<times> world" where
  "Url url_Parse u r w =
     (case url_Parse u of
        Inl e \<Rightarrow> Inr (r\<lparr>err := Some e\<rparr>, w)
      | Inr res \<Rightarrow>
          (case new_URL res w of
             (a, w') \<Rightarrow>
               (case request r of
                  None \<Rightarrow> Inl nil_pointer_dereference
                | Some q \<Rightarrow> Inr (r\<lparr>request := Some (q\<lparr>URL := Some a\<rparr>)\<rparr>, w'))))"

definition Body :: "ReadCloser option \<Rightarrow> Request \<Rightarrow> world \<Rightarrow> panic + Request \<times> world" where
  "Body rc r w =
     (case request r of
        None \<Rightarrow> Inl nil_pointer_dereference
      | Some q \<Rightarrow> Inr (r\<lparr>request := Some (q\<lparr>req_Body := rc\<rparr>)\<rparr>, w))"

text \<open>\<^verbatim>\<open>Json\<close>. \<open>json_Marshal\<close> is \<^verbatim>\<open>json.Marshal\<close>.\<close>

definition Json :: "('v \<Rightarrow> error + string) \<Rightarrow> 'v \<Rightarrow> Request \<Rightarrow> world \<Rightarrow>
    panic + Request \<times> world" where
  "Json json_Marshal body r w =
     (case SetHeader ''content-type'' [''application/json''] r w of
        Inl p \<Rightarrow> Inl p
      | Inr (r1, w1) \<Rightarrow>
          (case json_Marshal body of
             Inl e \<Rightarrow> Inr (r1\<lparr>err := Some e\<rparr>, w1)
           | Inr d \<Rightarrow>
               (case request r1 of
                  None \<Rightarrow> Inl nil_pointer_dereference
                | Some q \<Rightarrow>
                    Inr (r1\<lparr>request := Some (q\<lparr>req_Body := Some (io_NopCloser d)\<rparr>)\<rparr>, w1))))"

text \<open>
  \<^verbatim>\<open>Context\<close>: \<^verbatim>\<open>r.request.WithContext(ctx)\<close> panics on a nil context, then makes a
  shallow copy of the request (same header map, same URL) with the new context. The request
  it was copied from is dropped by the builder.
\<close>

definition Context :: "go_context option \<Rightarrow> Request \<Rightarrow> world \<Rightarrow> panic + Request \<times> world" where
  "Context c r w =
     (case c of
        None \<Rightarrow> Inl nil_context
      | Some c' \<Rightarrow>
          (case request r of
             None \<Rightarrow> Inl nil_pointer_dereference
           | Some q \<Rightarrow> Inr (r\<lparr>request := Some (q\<lparr>ctx := Some c'\<rparr>)\<rparr>, w)))"

subsection \<open>Execution\<close>

text \<open>
  \<^verbatim>\<open>Do\<close> returns \<^verbatim>\<open>(*Response, error)\<close>; it also assigns \<^verbatim>\<open>r.client\<close> when that was nil,
  and every call of a client's \<^verbatim>\<open>Do\<close> is appended to the log.
\<close>

definition Do :: "Request \<Rightarrow> world \<Rightarrow>
    panic + (Response option \<times> error option) \<times> Request \<times> world" where
  "Do r w =
     (case err r of
        Some e \<Rightarrow> Inr ((None, Some e), r, w)
      | None \<Rightarrow>
          (let c = (case client r of None \<Rightarrow> DefaultClient | Some c \<Rightarrow> c);
               r1 = r\<lparr>client := Some c\<rparr>;
               w1 = w\<lparr>calls := calls w @ [(c, request r)]\<rparr>
           in case Clienter_Do w c (request r) of
                (resp, Some e) \<Rightarrow> Inr ((None, Some e), r1, w1)
              | (resp, None) \<Rightarrow>
                  (case onResponseCheck r of
                     None \<Rightarrow> Inr ((Some (Response resp), None), r1, w1)
                   | Some f \<Rightarrow>
                       (case f resp of
                          Inl p \<Rightarrow> Inl p
                        | Inr (Some e) \<Rightarrow> Inr ((None, Some e), r1, w1)
                        | Inr None \<Rightarrow> Inr ((Some (Response resp), None), r1, w1)))))"

text \<open>
  \<^verbatim>\<open>DoAndParseJson\<close>: the returned error, the destination \<open>i\<close> as the call leaves it, the
  builder and the store.
\<close>

definition DoAndParseJson :: "(ReadCloser \<Rightarrow> 'd \<Rightarrow> error option \<times> 'd) \<Rightarrow> 'd \<Rightarrow> Request \<Rightarrow> world \<Rightarrow>
    panic + error option \<times> 'd \<times> Request \<times> world" where
  "DoAndParseJson json_Decode i r w =
     (case Do r w of
        Inl p \<Rightarrow> Inl p
      | Inr ((resp, Some e), r1, w1) \<Rightarrow>
          (case resp of
             Some (Response None) \<Rightarrow> Inl nil_pointer_dereference
           | Some (Response (Some h)) \<Rightarrow>
               (case resp_Body h of
                  None \<Rightarrow> Inl nil_pointer_dereference
                | Some b \<Rightarrow>
                    (case io_ReadAll b of
                       (raw, Some err2) \<Rightarrow>
                         Inr (Some (fmt_Errorf ''error: %v, content=%v'' [AErr e, AErr err2]),
                              i, r1, w1)
                     | (raw, None) \<Rightarrow>
                         Inr (Some (fmt_Errorf ''error: %v, content=%v'' [AErr e, AStr raw]),
                              i, r1, w1)))
           | None \<Rightarrow> Inr (Some (fmt_Errorf ''error: %v'' [AErr e]), i, r1, w1))
      | Inr ((resp, None), r1, w1) \<Rightarrow>
          (case resp of
             None \<Rightarrow> Inl nil_pointer_dereference
           | Some rs \<Rightarrow>
               (case ParseJson json_Decode rs i of
                  Inl p \<Rightarrow> Inl p
                | Inr (e, rs', i') \<Rightarrow> Inr (e, i', r1, w1))))"

subsection \<open>Cloning\<close>

text \<open>
  \<^verbatim>\<open>http.Request.Clone(ctx)\<close> panics on a nil context, copies the request struct, and gives
  the copy a fresh URL (\<^verbatim>\<open>cloneURL\<close>, nil stays nil) and a fresh header map
  (\<^verbatim>\<open>Header.Clone\<close>) with the same contents. The body is shared.
\<close>

definition http_Request_Clone :: "go_context option \<Rightarrow> http_Request option \<Rightarrow> world \<Rightarrow>
    panic + http_Request \<times> world" where
  "http_Request_Clone c r w =
     (case c of
        None \<Rightarrow> Inl nil_context
      | Some c' \<Rightarrow>
          (case r of
             None \<Rightarrow> Inl nil_pointer_dereference
           | Some q \<Rightarrow>
               (case (case URL q of
                        None \<Rightarrow> (None, w)
                      | Some a \<Rightarrow> (case new_URL (URLs w a) w of (a', w') \<Rightarrow> (Some a', w'))) of
                  (u2, w1) \<Rightarrow>
                    (case new_Header (Headers w1 (Header q)) w1 of
                       (h2, w2) \<Rightarrow> Inr (q\<lparr>ctx := Some c', URL := u2, Header := h2\<rparr>, w2)))))"

text \<open>\<^verbatim>\<open>http.Request.Context()\<close>: the request's context, or the background context.\<close>

definition http_Request_Context :: "http_Request option \<Rightarrow> panic + go_context" where
  "http_Request_Context r =
     (case r of
        None \<Rightarrow> Inl nil_pointer_dereference
      | Some q \<Rightarrow> Inr (case ctx q of None \<Rightarrow> Background | Some c \<Rightarrow> c))"

text \<open>
  \<^verbatim>\<open>CloneWithContext\<close> builds the new \<^verbatim>\<open>Request\<close> from three fields; the composite literal
  leaves \<^verbatim>\<open>onResponseCheck\<close> at its zero value. The result is the clone; the receiver is not
  changed.
\<close>

definition CloneWithContext :: "go_context option \<Rightarrow> Request \<Rightarrow> world \<Rightarrow> panic + Request \<times> world" where
  "CloneWithContext c r w =
     (case http_Request_Clone c (request r) w of
        Inl p \<Rightarrow> Inl p
      | Inr (q2, w2) \<Rightarrow>
          Inr (\<lparr>client = client r, request = Some q2, err = err r, onResponseCheck = None\<rparr>, w2))"

definition Clone :: "Request \<Rightarrow> world \<Rightarrow> panic + Request \<times> world" where
  "Clone r w =
     (case http_Request_Context (request r) of
        Inl p \<Rightarrow> Inl p
      | Inr c \<Rightarrow> CloneWithContext (Some c) r w)"

subsection \<open>Configuration calls as data\<close>

text \<open>
  One constructor for each configuration method with its arguments, so that a statement can
  range over all of them and over sequences of calls. \<open>run_config\<close> takes the library
  functions that \<^verbatim>\<open>Url\<close>, \<^verbatim>\<open>SetQueryParam\<close> and \<^verbatim>\<open>Json\<close> call. For the two clone calls
  the resulting builder is the clone.
\<close>

datatype 'v config =
    CGet | CPost | CDelete | CPut | CPatch | COptions
  | CSetClient "Clienter option"
  | CSetHeader string "string list"
  | CSetQueryParam string string
  | CUrl string
  | CBody "ReadCloser option"
  | CJson 'v
  | CContext "go_context option"
  | COnResponseCheck "hook option"
  | CClone
  | CCloneWithContext "go_context option"

record 'v library =
  url_Parse :: "string \<Rightarrow> error + URL"
  url_ParseQuery :: "string \<Rightarrow> url_Values"
  Values_Encode :: "url_Values \<Rightarrow> string"
  json_Marshal :: "'v \<Rightarrow> error + string"

fun run_config :: "'v library \<Rightarrow> 'v config \<Rightarrow> Request \<Rightarrow> world \<Rightarrow> panic + Request \<times> world" where
  "run_config L CGet = Get"
| "run_config L CPost = Post"
| "run_config L CDelete = Delete"
| "run_config L CPut = Put"
| "run_config L CPatch = Patch"
| "run_config L COptions = Options"
| "run_config L (CSetClient c) = SetClient c"
| "run_config L (CSetHeader key vals) = SetHeader key vals"
| "run_config L (CSetQueryParam key v) = SetQueryParam (url_ParseQuery L) (Values_Encode L) key v"
| "run_config L (CUrl u) = Url (url_Parse L) u"
| "run_config L (CBody rc) = Body rc"
| "run_config L (CJson body) = Json (json_Marshal L) body"
| "run_config L (CContext c) = Context c"
| "run_config L (COnResponseCheck f) = OnResponseCheck f"
| "run_config L CClone = Clone"
| "run_config L (CCloneWithContext c) = CloneWithContext c"

fun run_configs :: "'v library \<Rightarrow> 'v config list \<Rightarrow> Request \<Rightarrow> world \<Rightarrow> panic + Request \<times> world" where
  "run_configs L [] r w = Inr (r, w)"
| "run_configs L (c # cs) r w =
     (case run_config L c r w of
        Inl p \<Rightarrow> Inl p
      | Inr (r', w') \<Rightarrow> run_configs L cs r' w')"

text \<open>
  The round trip as a caller writes it: \<^verbatim>\<open>resp, err := r.Json(body).Do()\<close>, return \<^verbatim>\<open>err\<close>
  when it is non-nil, otherwise \<^verbatim>\<open>resp.ParseJson(&i)\<close>. The result is the error returned
  and the destination.
\<close>

definition Json_Do_ParseJson :: "('v \<Rightarrow> error + string) \<Rightarrow> (ReadCloser \<Rightarrow> 'd \<Rightarrow> error option \<times> 'd) \<Rightarrow>
    'v \<Rightarrow> 'd \<Rightarrow> Request \<Rightarrow> world \<Rightarrow> panic + error option \<times> 'd" where
  "Json_Do_ParseJson marshal decoder body i r w =
     (case Json marshal body r w of
        Inl p \<Rightarrow> Inl p
      | Inr (r1, w1) \<Rightarrow>
          (case Do r1 w1 of
             Inl p \<Rightarrow> Inl p
           | Inr ((resp, Some e), r2, w2) \<Rightarrow> Inr (Some e, i)
           | Inr ((None, None), r2, w2) \<Rightarrow> Inl nil_pointer_dereference
           | Inr ((Some rs, None), r2, w2) \<Rightarrow>
               (case ParseJson decoder rs i of
                  Inl p \<Rightarrow> Inl p
                | Inr (e, rs', i') \<Rightarrow> Inr (e, i'))))"

text \<open>
  A builder is well formed in a store when the header map and the URL it points to have been
  allocated there. \<^verbatim>\<open>New\<close> and the clone calls establish this and every configuration call
  keeps it.
\<close>

definition wf_Request :: "Request \<Rightarrow> world \<Rightarrow> bool" where
  "wf_Request r w =
     (case request r of
        None \<Rightarrow> True
      | Some q \<Rightarrow>
          Header q < Headers_next w
          \<and> (case URL q of None \<Rightarrow> True | Some a \<Rightarrow> a < URLs_next w))"

subsection \<open>Fixtures for the concrete instances\<close>

text \<open>
  A store with nothing allocated, no call logged, and a default client that fails as an
  unreachable network does.
\<close>

definition world0 :: world where
  "world0 =
     \<lparr>Headers = (\<lambda>a. Map.empty), Headers_next = 0,
      URLs = (\<lambda>a. \<lparr>Scheme = [], Host = [], Path = [], RawQuery = [], Fragment = []\<rparr>),
      URLs_next = 0,
      defaultClient = (\<lambda>q hs us. (None, Some (lib_error ''dial tcp: connection refused''))),
      calls = []\<rparr>"

definition mock404 :: transport where
  "mock404 q hs us =
     (Some \<lparr>StatusCode = 404, Status = ''404 Not Found'',
            resp_Body = Some (io_NopCloser ''not found'')\<rparr>, None)"

text \<open>A transport that answers with the request's own body.\<close>

definition echo :: transport where
  "echo q hs us =
     (Some \<lparr>StatusCode = 200, Status = ''200 OK'',
            resp_Body = (case q of None \<Rightarrow> None | Some q' \<Rightarrow> req_Body q')\<rparr>, None)"

text \<open>
  The codec of a \<^verbatim>\<open>json.RawMessage\<close>: marshalling yields the bytes themselves, decoding
  stores the bytes read, and a failing read is the decode error.
\<close>

definition raw_Marshal :: "string \<Rightarrow> error + string" where
  "raw_Marshal v = Inr v"

definition raw_Decode :: "ReadCloser \<Rightarrow> string \<Rightarrow> error option \<times> string" where
  "raw_Decode b i = (case read_error b of Some e \<Rightarrow> (Some e, i) | None \<Rightarrow> (None, data b))"

text \<open>What \<open>echo\<close> answers to a request.\<close>

definition echo_response :: "http_Request \<Rightarrow> http_Response" where
  "echo_response q = \<lparr>StatusCode = 200, Status = ''200 OK'', resp_Body = req_Body q\<rparr>"

text \<open>
  The part of \<^verbatim>\<open>encoding/json\<close> that the round trip instances run on: Go values of static
  type \<^verbatim>\<open>any\<close> that hold an \<^verbatim>\<open>int\<close>, or a \<^verbatim>\<open>float64\<close> that is a whole number of magnitude
  below \<open>2\<^sup>5\<^sup>3\<close> (which \<^verbatim>\<open>float64\<close> holds exactly and the encoder prints without fraction
  or exponent). \<^verbatim>\<open>json.Marshal\<close> prints either as decimal digits. Decoding into a
  \<^verbatim>\<open>*any\<close> stores a JSON number as a \<^verbatim>\<open>float64\<close>, whatever produced the digits. A stream
  that is not exactly one integer literal lies outside this part and is answered with an
  error.
\<close>

datatype go_any = any_int int | any_float64 int

fun decimal_nat :: "nat \<Rightarrow> string" where
  "decimal_nat n =
     (if n < 10 then [char_of (48 + n)]
      else decimal_nat (n div 10) @ [char_of (48 + n mod 10)])"

declare decimal_nat.simps [simp del]

definition decimal :: "int \<Rightarrow> string" where
  "decimal n = (if n < 0 then CHR ''-'' # decimal_nat (nat (- n)) else decimal_nat (nat n))"

fun digits_value :: "nat \<Rightarrow> string \<Rightarrow> nat option" where
  "digits_value acc [] = Some acc"
| "digits_value acc (c # cs) =
     (let n = (of_char c :: nat)
      in if 48 \<le> n \<and> n \<le> 57 then digits_value (10 * acc + (n - 48)) cs else None)"

definition nat_literal :: "string \<Rightarrow> nat option" where
  "nat_literal s =
     (case s of
        [] \<Rightarrow> None
      | c # cs \<Rightarrow> if c = CHR ''0'' \<and> cs \<noteq> [] then None else digits_value 0 s)"

definition integer_literal :: "string \<Rightarrow> int option" where
  "integer_literal s =
     (case s of
        [] \<Rightarrow> None
      | c # cs \<Rightarrow>
          if c = CHR ''-'' then map_option (\<lambda>n. - int n) (nat_literal cs)
          else map_option int (nat_literal s))"

definition any_Marshal :: "go_any \<Rightarrow> error + string" where
  "any_Marshal v = (case v of any_int n \<Rightarrow> Inr (decimal n) | any_float64 n \<Rightarrow> Inr (decimal n))"

definition any_Decode :: "ReadCloser \<Rightarrow> go_any \<Rightarrow> error option \<times> go_any" where
  "any_Decode b i =
     (case read_error b of
        Some e \<Rightarrow> (Some e, i)
      | None \<Rightarrow>
          (case integer_literal (data b) of
             None \<Rightarrow> (Some (lib_error ''invalid character''), i)
           | Some n \<Rightarrow> (None, any_float64 n)))"

text \<open>\<^verbatim>\<open>New()\<close> in the empty store, and the store it leaves.\<close>

definition new_builder :: Request where
  "new_builder = fst (New world0)"

definition world1 :: world where
  "world1 = snd (New world0)"

text \<open>\<^verbatim>\<open>New().SetHeader("Accept")\<close>: a builder with a deferred error.\<close>

definition failed_builder :: Request where
  "failed_builder = fst (projr (SetHeader ''Accept'' [] new_builder world1))"

text \<open>\<^verbatim>\<open>New().SetClient(mock404).OnResponseCheck(Check200)\<close>.\<close>

definition checked_builder :: Request where
  "checked_builder =
     fst (projr (OnResponseCheck (Some Check200)
       (fst (projr (SetClient (Some (Injected mock404)) new_builder world1))) world1))"

text \<open>\<^verbatim>\<open>New().Post().SetClient(echo).OnResponseCheck(Check200)\<close>.\<close>

definition echo_builder :: Request where
  "echo_builder =
     fst (projr (OnResponseCheck (Some Check200)
       (fst (projr (SetClient (Some (Injected echo))
         (fst (projr (Post new_builder world1))) world1))) world1))"


text \<open>\<^verbatim>\<open>checked_builder.Clone()\<close> and \<^verbatim>\<open>new_builder.Clone()\<close>, and the store after either.\<close>

definition cloned_builder :: Request where
  "cloned_builder = fst (projr (Clone checked_builder world1))"

definition cloned_new_builder :: Request where
  "cloned_new_builder = fst (projr (Clone new_builder world1))"

definition world2 :: world where
  "world2 = snd (projr (Clone checked_builder world1))"

text \<open>
  What \<^verbatim>\<open>GetHeader()[key]\<close> reads after a run of configuration calls (\<open>None\<close> when the key
  is absent or the run panicked).
\<close>

definition header_after :: "panic + Request \<times> world \<Rightarrow> string \<Rightarrow> string list option" where
  "header_after res key =
     (case res of
        Inl p \<Rightarrow> None
      | Inr (r, w) \<Rightarrow> (case GetHeader r w of Inl p \<Rightarrow> None | Inr h \<Rightarrow> h key))"

text \<open>\<^verbatim>\<open>New().SetHeader("X-Tag", "a").SetHeader("X-Tag", "b")\<close>.\<close>

definition two_SetHeader_calls :: "panic + Request \<times> world" where
  "two_SetHeader_calls =
     (case SetHeader ''X-Tag'' [''a''] new_builder world1 of
        Inl p \<Rightarrow> Inl p
      | Inr (r1, w1) \<Rightarrow> SetHeader ''X-Tag'' [''b''] r1 w1)"

text \<open>
  Stand-ins for the \<^verbatim>\<open>net/url\<close> functions, enough to run the instances below: parsing
  fails on a leading colon (missing protocol scheme) and otherwise keeps the text as the
  path; no instance adds a query parameter to a builder that has a URL, so the two query
  functions are never reached. The theorems hold for every library.
\<close>

definition standin_Parse :: "string \<Rightarrow> error + URL" where
  "standin_Parse u =
     (if take 1 u = '':'' then Inl (lib_error ''missing protocol scheme'')
      else Inr \<lparr>Scheme = [], Host = [], Path = u, RawQuery = [], Fragment = []\<rparr>)"

definition standin_ParseQuery :: "string \<Rightarrow> url_Values" where
  "standin_ParseQuery s = Map.empty"

definition standin_Encode :: "url_Values \<Rightarrow> string" where
  "standin_Encode q = []"

definition standin_library :: "string library" where
  "standin_library =
     \<lparr>url_Parse = standin_Parse, url_ParseQuery = standin_ParseQuery,
      Values_Encode = standin_Encode, json_Marshal = raw_Marshal\<rparr>"

text \<open>Ten configuration calls on the failed builder, and their result.\<close>

definition sticky_calls :: "string config list" where
  "sticky_calls =
     [CGet, CUrl '':bad'', CSetHeader ''Accept'' [''text/html''], CBody None,
      CJson ''[1,2,3]'', CSetClient (Some DefaultClient), CContext (Some Background),
      COnResponseCheck (Some Check200), CSetQueryParam ''page'' ''2'', CClone]"

definition sticky_run :: "panic + Request \<times> world" where
  "sticky_run = run_configs standin_library sticky_calls failed_builder world1"

text \<open>A body whose \<^verbatim>\<open>Close\<close> fails, and one whose \<^verbatim>\<open>Read\<close> fails as well.\<close>

definition failing_close_body :: ReadCloser where
  "failing_close_body =
     \<lparr>data = ''[1,2,3]'', read_error = None,
      close_error = Some (lib_error ''close failed''), is_closed = False\<rparr>"

definition failing_read_body :: ReadCloser where
  "failing_read_body =
     \<lparr>data = ''[1,2'', read_error = Some (lib_error ''unexpected EOF''),
      close_error = Some (lib_error ''close failed''), is_closed = False\<rparr>"


section \<open>Properties\<close>

subsection \<open>Auxiliary facts\<close>

lemma new_builder_simps:
  "client new_builder = None"
  "request new_builder =
     Some \<lparr>Method = [], URL = None, Header = 0, req_Body = None, ctx = None\<rparr>"
  "err new_builder = None"
  "onResponseCheck new_builder = None"
  by (simp_all add: new_builder_def New_def new_Header_def world0_def)

lemma world1_simps:
  "Headers world1 = (\<lambda>a. Map.empty)"
  "Headers_next world1 = Suc 0"
  "URLs_next world1 = 0"
  "calls world1 = []"
  by (simp_all add: world1_def New_def new_Header_def world0_def fun_eq_iff)

lemma checked_builder_simps:
  "client checked_builder = Some (Injected mock404)"
  "request checked_builder =
     Some \<lparr>Method = [], URL = None, Header = 0, req_Body = None, ctx = None\<rparr>"
  "err checked_builder = None"
  "onResponseCheck checked_builder = Some Check200"
  by (simp_all add: checked_builder_def OnResponseCheck_def SetClient_def new_builder_simps)

text \<open>\<^verbatim>\<open>Do\<close> with the client it resolves written as \<open>client_or_default\<close>.\<close>

lemma Do_unfold:
  "Do r w =
     (case err r of
        Some e \<Rightarrow> Inr ((None, Some e), r, w)
      | None \<Rightarrow>
          (case Clienter_Do w (client_or_default r) (request r) of
             (resp, Some e) \<Rightarrow>
               Inr ((None, Some e), r\<lparr>client := Some (client_or_default r)\<rparr>,
                    w\<lparr>calls := calls w @ [(client_or_default r, request r)]\<rparr>)
           | (resp, None) \<Rightarrow>
               (case onResponseCheck r of
                  None \<Rightarrow>
                    Inr ((Some (Response resp), None), r\<lparr>client := Some (client_or_default r)\<rparr>,
                         w\<lparr>calls := calls w @ [(client_or_default r, request r)]\<rparr>)
                | Some f \<Rightarrow>
                    (case f resp of
                       Inl p \<Rightarrow> Inl p
                     | Inr (Some e) \<Rightarrow>
                         Inr ((None, Some e), r\<lparr>client := Some (client_or_default r)\<rparr>,
                              w\<lparr>calls := calls w @ [(client_or_default r, request r)]\<rparr>)
                     | Inr None \<Rightarrow>
                         Inr ((Some (Response resp), None),
                              r\<lparr>client := Some (client_or_default r)\<rparr>,
                              w\<lparr>calls := calls w @ [(client_or_default r, request r)]\<rparr>)))))"
  by (simp add: Do_def client_or_default_def Let_def split: option.splits prod.splits sum.splits)

text \<open>Every failing path of \<^verbatim>\<open>Do\<close> returns a nil response.\<close>

lemma Do_failure_no_response:
  "Do r w = Inr ((resp, Some e), r1, w1) \<Longrightarrow> resp = None"
  by (auto simp: Do_unfold split: option.splits prod.splits sum.splits)

text \<open>
  Hence the branch of \<^verbatim>\<open>DoAndParseJson\<close> that reads the body of a response returned with
  an error is never taken: whenever \<^verbatim>\<open>Do\<close> fails, the error is wrapped without content.
\<close>

lemma DoAndParseJson_failure:
  "Do r w = Inr ((resp, Some e), r1, w1) \<Longrightarrow>
   DoAndParseJson json_Decode i r w = Inr (Some (fmt_Errorf ''error: %v'' [AErr e]), i, r1, w1)"
  using Do_failure_no_response [of r w resp e r1 w1]
  by (simp add: DoAndParseJson_def)

lemma failed_builder_simps:
  "client failed_builder = None"
  "request failed_builder =
     Some \<lparr>Method = [], URL = None, Header = 0, req_Body = None, ctx = None\<rparr>"
  "err failed_builder = Some (fmt_Errorf ''missing values for set header %q'' [AStr ''Accept''])"
  "onResponseCheck failed_builder = None"
  by (simp_all add: failed_builder_def SetHeader_def new_builder_simps)

lemma echo_builder_simps:
  "client echo_builder = Some (Injected echo)"
  "request echo_builder =
     Some \<lparr>Method = ''POST'', URL = None, Header = 0, req_Body = None, ctx = None\<rparr>"
  "err echo_builder = None"
  "onResponseCheck echo_builder = Some Check200"
  by (simp_all add: echo_builder_def OnResponseCheck_def SetClient_def Post_def set_Method_def
      new_builder_simps)

lemma Clone_checked_builder:
  "Clone checked_builder world1 = Inr (cloned_builder, world2)"
  by (simp add: cloned_builder_def world2_def Clone_def CloneWithContext_def
      http_Request_Clone_def http_Request_Context_def new_Header_def checked_builder_simps)

lemma cloned_builder_simps:
  "client cloned_builder = Some (Injected mock404)"
  "request cloned_builder =
     Some \<lparr>Method = [], URL = None, Header = Suc 0, req_Body = None, ctx = Some Background\<rparr>"
  "err cloned_builder = None"
  by (simp_all add: cloned_builder_def Clone_def CloneWithContext_def
      http_Request_Clone_def http_Request_Context_def new_Header_def checked_builder_simps
      world1_simps)

lemma Clone_new_builder:
  "Clone new_builder world1 =
     Inr (new_builder\<lparr>request :=
            Some \<lparr>Method = [], URL = None, Header = Suc 0, req_Body = None,
                  ctx = Some Background\<rparr>\<rparr>, world2)"
  by (simp add: world2_def Clone_def CloneWithContext_def
      http_Request_Clone_def http_Request_Context_def new_Header_def checked_builder_simps
      new_builder_simps world1_simps)

text \<open>Two header keys in canonical form.\<close>

lemma canonical_X_Tag: "CanonicalMIMEHeaderKey ''X-Tag'' = ''X-Tag''"
  by code_simp

lemma canonical_accept: "CanonicalMIMEHeaderKey ''accept'' = ''Accept''"
  by code_simp

text \<open>
  The loop of \<^verbatim>\<open>SetHeader\<close> leaves exactly the supplied values under the canonical key.
\<close>

lemma SetHeader_loop_Suc:
  "h (CanonicalMIMEHeaderKey key) = Some xs \<Longrightarrow>
   SetHeader_loop key (Suc i) vs h = h(CanonicalMIMEHeaderKey key \<mapsto> xs @ vs)"
proof (induction vs arbitrary: h xs i)
  case Nil
  then show ?case by (simp add: map_upd_triv)
next
  case (Cons v vs)
  have "Header_Add h key v (CanonicalMIMEHeaderKey key) = Some (xs @ [v])"
    using Cons.prems by (simp add: Header_Add_def)
  then have "SetHeader_loop key (Suc (Suc i)) vs (Header_Add h key v) =
      (Header_Add h key v)(CanonicalMIMEHeaderKey key \<mapsto> (xs @ [v]) @ vs)"
    by (rule Cons.IH)
  then show ?case
    by (simp add: Header_Add_def)
qed

lemma SetHeader_loop_0:
  "SetHeader_loop key 0 (v # vs) h = h(CanonicalMIMEHeaderKey key \<mapsto> v # vs)"
proof -
  have "Header_Set h key v (CanonicalMIMEHeaderKey key) = Some [v]"
    by (simp add: Header_Set_def)
  then have "SetHeader_loop key (Suc 0) vs (Header_Set h key v) =
      (Header_Set h key v)(CanonicalMIMEHeaderKey key \<mapsto> [v] @ vs)"
    by (rule SetHeader_loop_Suc)
  then show ?thesis
    by (simp add: Header_Set_def)
qed

lemma SetHeader_nonempty:
  "request r = Some q \<Longrightarrow> vals \<noteq> [] \<Longrightarrow>
   SetHeader key vals r w =
     Inr (r, w\<lparr>Headers := (Headers w)
                  (Header q := (Headers w (Header q))(CanonicalMIMEHeaderKey key \<mapsto> vals))\<rparr>)"
  by (cases vals) (simp_all add: SetHeader_def SetHeader_loop_0 del: SetHeader_loop.simps)

lemma SetHeader_Inr:
  "SetHeader key vals r w = Inr (r', w') \<Longrightarrow>
   (vals = [] \<and> w' = w) \<or>
   (\<exists>q h. request r = Some q \<and> r' = r \<and> w' = w\<lparr>Headers := (Headers w)(Header q := h)\<rparr>)"
  by (auto simp: SetHeader_def split: if_splits option.splits)

text \<open>What a successful clone call says about its result.\<close>

lemma http_Request_Clone_Inr:
  assumes "http_Request_Clone c (Some q) w = Inr (q2, w2)"
  shows "Header q2 = Headers_next w \<and> Headers w2 (Header q2) = Headers w (Header q)
    \<and> (\<forall>a. a \<noteq> Headers_next w \<longrightarrow> Headers w2 a = Headers w a)"
  using assms
  by (auto simp: http_Request_Clone_def new_URL_def new_Header_def
      split: option.splits prod.splits)

lemma Clone_is_CloneWithContext:
  "Clone r w = Inr (r2, w2) \<Longrightarrow> \<exists>c. CloneWithContext (Some c) r w = Inr (r2, w2)"
  by (auto simp: Clone_def split: sum.splits)

lemma CloneWithContext_Inr:
  assumes "CloneWithContext c r w = Inr (r2, w2)"
  shows "\<exists>q q2. request r = Some q \<and> request r2 = Some q2
     \<and> http_Request_Clone c (Some q) w = Inr (q2, w2)
     \<and> client r2 = client r \<and> err r2 = err r \<and> onResponseCheck r2 = None"
  using assms
  by (cases "request r")
    (auto simp: CloneWithContext_def http_Request_Clone_def split: sum.splits option.splits)

lemma clone_cases:
  assumes "Clone r w = Inr (r2, w2) \<or> CloneWithContext c r w = Inr (r2, w2)"
  obtains c' where "CloneWithContext c' r w = Inr (r2, w2)"
  using assms Clone_is_CloneWithContext by blast

lemma Json_Inr:
  assumes "request r = Some q" and "marshal V = Inr d"
  shows "Json marshal V r w =
     Inr (r\<lparr>request := Some (q\<lparr>req_Body := Some (io_NopCloser d)\<rparr>)\<rparr>,
          w\<lparr>Headers := (Headers w)
               (Header q := SetHeader_loop ''content-type'' 0 [''application/json'']
                              (Headers w (Header q)))\<rparr>)"
  using assms by (simp add: Json_def SetHeader_def del: SetHeader_loop.simps)

lemma deferred_step:
  "err r \<noteq> None \<Longrightarrow> run_config L c r w = Inr (r', w') \<Longrightarrow> err r' \<noteq> None"
  by (cases c)
    (auto simp: Get_def Post_def Delete_def Put_def Patch_def Options_def set_Method_def
      SetClient_def OnResponseCheck_def SetHeader_def SetQueryParam_def Url_def Body_def
      Json_def Context_def Clone_def CloneWithContext_def http_Request_Clone_def
      http_Request_Context_def new_URL_def new_Header_def
      split: option.splits sum.splits prod.splits if_splits)

lemma sticky_run_value:
  "\<not> isl sticky_run
   \<and> err (fst (projr sticky_run)) = Some (errors_New ''cannot add query param to nil url'')"
  by (simp add: sticky_run_def sticky_calls_def standin_library_def standin_Parse_def
      raw_Marshal_def Get_def set_Method_def Url_def SetHeader_def Body_def Json_def
      SetClient_def Context_def OnResponseCheck_def SetQueryParam_def Clone_def
      CloneWithContext_def http_Request_Clone_def http_Request_Context_def new_Header_def
      failed_builder_simps)

text \<open>The codec fragment at the value 1, and the echo transport.\<close>

lemma any_Marshal_int_1: "any_Marshal (any_int 1) = Inr ''1''"
  by code_simp

lemma any_Marshal_float64_1: "any_Marshal (any_float64 1) = Inr ''1''"
  by code_simp

lemma integer_literal_1: "integer_literal ''1'' = Some 1"
  by code_simp

lemma any_Decode_1: "any_Decode (io_NopCloser ''1'') i = (None, any_float64 1)"
  by (simp add: any_Decode_def io_NopCloser_def integer_literal_1)

lemma close_error_NopCloser: "close_error (io_NopCloser d) = None"
  by (simp add: io_NopCloser_def)

lemma echo_is_echo:
  "\<forall>q' hs us. echo (Some q') hs us = (Some (echo_response q'), None)
      \<and> resp_Body (echo_response q') = req_Body q'"
  by (simp add: echo_def echo_response_def)

lemma Check200_echo_response:
  "\<forall>f q'. onResponseCheck echo_builder = Some f \<longrightarrow> f (Some (echo_response q')) = Inr None"
  by (simp add: echo_builder_simps Check200_def echo_response_def)

subsection \<open>Well-formed builders\<close>

text \<open>
  \<^verbatim>\<open>New\<close> returns a well-formed builder, a configuration call returns one when given
  one, and neither a configuration call nor \<^verbatim>\<open>Do\<close> on any builder makes another builder
  ill-formed: the builders a program can reach from \<^verbatim>\<open>New\<close> are well formed.
\<close>

lemma New_wf: "New w = (r, w') \<Longrightarrow> wf_Request r w'"
  by (auto simp: New_def new_Header_def wf_Request_def)

lemma run_config_wf:
  "wf_Request r w \<Longrightarrow> run_config L c r w = Inr (r', w') \<Longrightarrow> wf_Request r' w'"
  by (cases c)
    (auto simp: wf_Request_def Get_def Post_def Delete_def Put_def Patch_def Options_def
      set_Method_def SetClient_def OnResponseCheck_def SetHeader_def SetQueryParam_def Url_def
      Body_def Json_def Context_def Clone_def CloneWithContext_def http_Request_Clone_def
      http_Request_Context_def new_URL_def new_Header_def
      split: option.splits sum.splits prod.splits if_splits)

lemma run_config_wf_other:
  "wf_Request r0 w \<Longrightarrow> run_config L c r w = Inr (r', w') \<Longrightarrow> wf_Request r0 w'"
  by (cases c)
    (auto simp: wf_Request_def Get_def Post_def Delete_def Put_def Patch_def Options_def
      set_Method_def SetClient_def OnResponseCheck_def SetHeader_def SetQueryParam_def Url_def
      Body_def Json_def Context_def Clone_def CloneWithContext_def http_Request_Clone_def
      http_Request_Context_def new_URL_def new_Header_def
      split: option.splits sum.splits prod.splits if_splits)

lemma run_configs_wf:
  "wf_Request r w \<Longrightarrow> run_configs L cs r w = Inr (r', w') \<Longrightarrow> wf_Request r' w'"
proof (induction cs arbitrary: r w)
  case Nil
  then show ?case by simp
next
  case (Cons c cs)
  from Cons.prems(2) obtain r1 w1 where
    step: "run_config L c r w = Inr (r1, w1)" and rest: "run_configs L cs r1 w1 = Inr (r', w')"
    by (auto split: sum.splits)
  from run_config_wf [OF Cons.prems(1) step] have "wf_Request r1 w1" .
  from Cons.IH [OF this rest] show ?case .
qed

lemma Do_wf:
  "wf_Request r0 w \<Longrightarrow> Do r w = Inr (res, r', w') \<Longrightarrow> wf_Request r0 w'"
  by (auto simp: Do_unfold wf_Request_def split: option.splits prod.splits sum.splits)

subsection \<open>Execution with a deferred error\<close>

text \<open>
  Claim C1. For every builder whose stored error is non-nil, \<^verbatim>\<open>Do\<close> returns a nil response
  and exactly the stored error. The builder and the store come back unchanged; in particular
  the log of client calls is the same, so neither an injected client nor the default client
  has been called.
\<close>

theorem Do_deferred_error:
  "err r = Some e \<Longrightarrow> Do r w = Inr ((None, Some e), r, w)"
  by (simp add: Do_def)

theorem Do_deferred_error_witness:
  "err failed_builder = Some (fmt_Errorf ''missing values for set header %q'' [AStr ''Accept''])
   \<and> Do failed_builder world1 =
       Inr ((None, Some (fmt_Errorf ''missing values for set header %q'' [AStr ''Accept''])),
            failed_builder, world1)"
proof -
  have h: "err failed_builder =
      Some (fmt_Errorf ''missing values for set header %q'' [AStr ''Accept''])"
    by (simp add: failed_builder_def SetHeader_def)
  from h Do_deferred_error [OF h] show ?thesis by simp
qed

subsection \<open>The response hook\<close>

text \<open>
  Claim C2. For a builder with a response hook \<open>f\<close> (and no deferred error, so that the
  transport is called at all): if the resolved client returns \<open>resp\<close> without an error and
  \<open>f resp\<close> returns the error \<open>e\<close>, then \<^verbatim>\<open>Do\<close> returns a nil response and exactly \<open>e\<close>.
\<close>

theorem Do_hook_error:
  assumes "err r = None" and "onResponseCheck r = Some f"
    and "Clienter_Do w (client_or_default r) (request r) = (resp, None)"
    and "f resp = Inr (Some e)"
  shows "Do r w = Inr ((None, Some e), r\<lparr>client := Some (client_or_default r)\<rparr>,
                       w\<lparr>calls := calls w @ [(client_or_default r, request r)]\<rparr>)"
  using assms by (simp add: Do_unfold)

theorem Do_hook_error_witness:
  "err checked_builder = None
   \<and> onResponseCheck checked_builder = Some Check200
   \<and> Clienter_Do world1 (client_or_default checked_builder) (request checked_builder) =
       (Some \<lparr>StatusCode = 404, Status = ''404 Not Found'',
              resp_Body = Some (io_NopCloser ''not found'')\<rparr>, None)
   \<and> Check200 (Some \<lparr>StatusCode = 404, Status = ''404 Not Found'',
                      resp_Body = Some (io_NopCloser ''not found'')\<rparr>) =
       Inr (Some (fmt_Errorf ''[%v] %v'' [AInt 404, AStr ''404 Not Found'']))
   \<and> Do checked_builder world1 =
       Inr ((None, Some (fmt_Errorf ''[%v] %v'' [AInt 404, AStr ''404 Not Found''])),
            checked_builder\<lparr>client := Some (client_or_default checked_builder)\<rparr>,
            world1\<lparr>calls := calls world1 @
              [(client_or_default checked_builder, request checked_builder)]\<rparr>)"
proof -
  have h1: "err checked_builder = None"
    and h2: "onResponseCheck checked_builder = Some Check200"
    by (simp_all add: checked_builder_simps)
  have h3: "Clienter_Do world1 (client_or_default checked_builder) (request checked_builder) =
       (Some \<lparr>StatusCode = 404, Status = ''404 Not Found'',
              resp_Body = Some (io_NopCloser ''not found'')\<rparr>, None)"
    by (simp add: Clienter_Do_def client_or_default_def checked_builder_simps mock404_def)
  have h4: "Check200 (Some \<lparr>StatusCode = 404, Status = ''404 Not Found'',
                      resp_Body = Some (io_NopCloser ''not found'')\<rparr>) =
       Inr (Some (fmt_Errorf ''[%v] %v'' [AInt 404, AStr ''404 Not Found'']))"
    by (simp add: Check200_def)
  from h1 h2 h3 h4 Do_hook_error [OF h1 h2 h3 h4] show ?thesis by simp
qed

subsection \<open>Execute and decode\<close>

text \<open>
  Claim C3. The claim says that the error of a failed \<^verbatim>\<open>DoAndParseJson\<close> carries the raw
  body text whenever a response is available and readable. Here the transport delivers a 404
  response whose body reads \<^verbatim>\<open>not found\<close> and \<^verbatim>\<open>Check200\<close> rejects it: the error that comes
  back is \<^verbatim>\<open>error: [404] 404 Not Found\<close> with no content part, the destination is untouched.
\<close>

theorem DoAndParseJson_discards_body:
  "DoAndParseJson raw_Decode [] checked_builder world1 =
     Inr (Some (fmt_Errorf ''error: %v''
                 [AErr (fmt_Errorf ''[%v] %v'' [AInt 404, AStr ''404 Not Found''])]),
          [], checked_builder,
          world1\<lparr>calls := [(Injected mock404, request checked_builder)]\<rparr>)"
proof -
  have "Do checked_builder world1 =
      Inr ((None, Some (fmt_Errorf ''[%v] %v'' [AInt 404, AStr ''404 Not Found''])),
           checked_builder,
           world1\<lparr>calls := [(Injected mock404, request checked_builder)]\<rparr>)"
    by (simp add: Do_unfold checked_builder_simps client_or_default_def Clienter_Do_def
        mock404_def Check200_def world1_simps)
  then show ?thesis by (rule DoAndParseJson_failure)
qed

subsection \<open>Setting headers\<close>

text \<open>
  Claim C4, the part that fails. The claim has a second \<^verbatim>\<open>SetHeader\<close> call for a key append
  to the values of the first. After \<^verbatim>\<open>SetHeader("X-Tag", "a")\<close> and then
  \<^verbatim>\<open>SetHeader("X-Tag", "b")\<close> the header holds \<^verbatim>\<open>b\<close> alone.
\<close>

theorem SetHeader_second_call_counterexample:
  "header_after two_SetHeader_calls ''X-Tag'' = Some [''b'']
   \<and> header_after two_SetHeader_calls ''X-Tag'' \<noteq> Some [''a'', ''b'']"
  by (simp add: header_after_def two_SetHeader_calls_def SetHeader_nonempty new_builder_simps
      GetHeader_def canonical_X_Tag)

text \<open>
  Claim C4, amended. A \<^verbatim>\<open>SetHeader\<close> call with at least one value leaves, under the
  canonical form of the key, exactly the values of this call in their order, whatever was
  stored before: the first value replaces, the further values of the same call append, and
  so a later call for the key replaces again. Nothing else in the store changes. A call with
  no value stores the deferred error that names the key and leaves the store as it is.
\<close>

theorem SetHeader_replaces:
  "(request r = Some q \<longrightarrow> vals \<noteq> [] \<longrightarrow>
      SetHeader key vals r w =
        Inr (r, w\<lparr>Headers := (Headers w)
                     (Header q := (Headers w (Header q))(CanonicalMIMEHeaderKey key \<mapsto> vals))\<rparr>))
   \<and> SetHeader key [] r w =
        Inr (r\<lparr>err := Some (fmt_Errorf ''missing values for set header %q'' [AStr key])\<rparr>, w)"
  by (simp add: SetHeader_nonempty) (simp add: SetHeader_def)

theorem SetHeader_replaces_witness:
  "request new_builder =
     Some \<lparr>Method = [], URL = None, Header = 0, req_Body = None, ctx = None\<rparr>
   \<and> [''text/html'', ''application/json''] \<noteq> []
   \<and> SetHeader ''accept'' [''text/html'', ''application/json''] new_builder
       (world1\<lparr>Headers := (Headers world1)(0 := [''Accept'' \<mapsto> [''*/*'']])\<rparr>) =
       Inr (new_builder,
            world1\<lparr>Headers := (Headers world1)
              (0 := [''Accept'' \<mapsto> [''text/html'', ''application/json'']])\<rparr>)
   \<and> SetHeader ''accept'' [] new_builder world1 =
       Inr (new_builder\<lparr>err :=
              Some (fmt_Errorf ''missing values for set header %q'' [AStr ''accept''])\<rparr>, world1)"
proof -
  have h1: "request new_builder =
     Some \<lparr>Method = [], URL = None, Header = 0, req_Body = None, ctx = None\<rparr>"
    by (simp add: new_builder_simps)
  have h2: "[''text/html'', ''application/json''] \<noteq> []"
    by simp
  from h1 h2
    SetHeader_replaces [of new_builder
      "\<lparr>Method = [], URL = None, Header = 0, req_Body = None, ctx = None\<rparr>"
      "[''text/html'', ''application/json'']" "''accept''"
      "world1\<lparr>Headers := (Headers world1)(0 := [''Accept'' \<mapsto> [''*/*'']])\<rparr>"]
    SetHeader_replaces [of new_builder
      "\<lparr>Method = [], URL = None, Header = 0, req_Body = None, ctx = None\<rparr>"
      "[''text/html'', ''application/json'']" "''accept''" world1]
  show ?thesis
    by (simp add: canonical_accept)
qed

subsection \<open>JSON round trip\<close>

text \<open>
  Claim C5, as stated, fails. The value \<^verbatim>\<open>any(1)\<close>, an \<^verbatim>\<open>int\<close>, is JSON-serializable:
  \<^verbatim>\<open>json.Marshal\<close> gives \<^verbatim>\<open>1\<close>. Sent with \<^verbatim>\<open>Json\<close> through \<^verbatim>\<open>Do\<close> against the echo
  transport and decoded by \<^verbatim>\<open>ParseJson\<close> into a destination of the same type \<^verbatim>\<open>any\<close>, it
  comes back as \<^verbatim>\<open>float64(1)\<close>, which is not equal to it.
\<close>

theorem Json_roundtrip_counterexample:
  "any_Marshal (any_int 1) = Inr ''1''
   \<and> Json_Do_ParseJson any_Marshal any_Decode (any_int 1) (any_int 0) echo_builder world1 =
       Inr (None, any_float64 1)
   \<and> Json_Do_ParseJson any_Marshal any_Decode (any_int 1) (any_int 0) echo_builder world1 \<noteq>
       Inr (None, any_int 1)"
proof -
  have j: "Json any_Marshal (any_int 1) echo_builder world1 =
     Inr (echo_builder\<lparr>request := Some (\<lparr>Method = ''POST'', URL = None, Header = 0,
            req_Body = None, ctx = None\<rparr>\<lparr>req_Body := Some (io_NopCloser ''1'')\<rparr>)\<rparr>,
          world1\<lparr>Headers := (Headers world1)
               (Header \<lparr>Method = ''POST'', URL = None, Header = 0,
                  req_Body = None, ctx = None\<rparr> :=
                  SetHeader_loop ''content-type'' 0 [''application/json'']
                    (Headers world1 (Header \<lparr>Method = ''POST'', URL = None, Header = 0,
                       req_Body = None, ctx = None\<rparr>)))\<rparr>)"
    by (rule Json_Inr) (simp_all add: echo_builder_simps any_Marshal_int_1)
  have "Json_Do_ParseJson any_Marshal any_Decode (any_int 1) (any_int 0) echo_builder world1 =
       Inr (None, any_float64 1)"
    by (simp add: Json_Do_ParseJson_def j Do_unfold echo_builder_simps client_or_default_def
        Clienter_Do_def echo_def Check200_def ParseJson_def any_Decode_1 Close_def
        close_error_NopCloser del: SetHeader_loop.simps)
  then show ?thesis
    by (simp add: any_Marshal_int_1)
qed

text \<open>
  Claim C5, amended. Let \<open>V\<close> be a value that the JSON codec reads back from its own
  serialisation: \<^verbatim>\<open>json.Marshal\<close> gives \<open>d\<close>, and decoding a buffer that holds \<open>d\<close> into the
  destination gives \<open>V\<close>. On a builder without deferred error whose injected transport
  answers every request with a response carrying that request's body, and whose hook (if
  any) accepts these responses, building with \<^verbatim>\<open>Json(V)\<close>, executing \<^verbatim>\<open>Do\<close> and decoding
  with \<^verbatim>\<open>ParseJson\<close> returns a nil error and leaves \<open>V\<close> in the destination.
\<close>

theorem Json_roundtrip:
  assumes "request r = Some q" and "err r = None" and "client r = Some (Injected t)"
    and marshal: "marshal V = Inr d"
    and dec: "decoder (io_NopCloser d) i = (None, V)"
    and echo: "\<forall>q' hs us. t (Some q') hs us = (Some (R q'), None) \<and> resp_Body (R q') = req_Body q'"
    and hook: "\<forall>f q'. onResponseCheck r = Some f \<longrightarrow> f (Some (R q')) = Inr None"
  shows "Json_Do_ParseJson marshal decoder V i r w = Inr (None, V)"
proof -
  let ?q1 = "q\<lparr>req_Body := Some (io_NopCloser d)\<rparr>"
  let ?r1 = "r\<lparr>request := Some ?q1\<rparr>"
  let ?w1 = "w\<lparr>Headers := (Headers w)
               (Header q := SetHeader_loop ''content-type'' 0 [''application/json'']
                              (Headers w (Header q)))\<rparr>"
  have j: "Json marshal V r w = Inr (?r1, ?w1)"
    using assms(1) marshal by (rule Json_Inr)
  have call: "Clienter_Do ?w1 (client_or_default ?r1) (request ?r1) = (Some (R ?q1), None)"
    using assms(3) echo by (simp add: Clienter_Do_def client_or_default_def)
  have body: "resp_Body (R ?q1) = Some (io_NopCloser d)"
    using echo by simp
  have d: "Do ?r1 ?w1 =
      Inr ((Some (Response (Some (R ?q1))), None), ?r1\<lparr>client := Some (client_or_default ?r1)\<rparr>,
           ?w1\<lparr>calls := calls ?w1 @ [(client_or_default ?r1, request ?r1)]\<rparr>)"
  proof (cases "onResponseCheck r")
    case None
    then show ?thesis using assms(2) call by (simp add: Do_unfold)
  next
    case (Some f)
    with hook have "f (Some (R ?q1)) = Inr None" by simp
    with Some show ?thesis using assms(2) call by (simp add: Do_unfold)
  qed
  have p: "ParseJson decoder (Response (Some (R ?q1))) i =
      Inr (None,
           Response (Some ((R ?q1)\<lparr>resp_Body := Some ((io_NopCloser d)\<lparr>is_closed := True\<rparr>)\<rparr>)), V)"
    using body dec by (simp add: ParseJson_def Close_def io_NopCloser_def)
  show ?thesis
    by (simp add: Json_Do_ParseJson_def j d p del: SetHeader_loop.simps)
qed

theorem Json_roundtrip_witness:
  "request echo_builder =
     Some \<lparr>Method = ''POST'', URL = None, Header = 0, req_Body = None, ctx = None\<rparr>
   \<and> err echo_builder = None
   \<and> client echo_builder = Some (Injected echo)
   \<and> any_Marshal (any_float64 1) = Inr ''1''
   \<and> any_Decode (io_NopCloser ''1'') (any_int 0) = (None, any_float64 1)
   \<and> echo (Some \<lparr>Method = ''POST'', URL = None, Header = 0,
                   req_Body = Some (io_NopCloser ''1''), ctx = None\<rparr>)
        (Headers world1) (URLs world1) =
       (Some (echo_response \<lparr>Method = ''POST'', URL = None, Header = 0,
                              req_Body = Some (io_NopCloser ''1''), ctx = None\<rparr>), None)
   \<and> resp_Body (echo_response \<lparr>Method = ''POST'', URL = None, Header = 0,
                                req_Body = Some (io_NopCloser ''1''), ctx = None\<rparr>) =
       Some (io_NopCloser ''1'')
   \<and> onResponseCheck echo_builder = Some Check200
   \<and> Check200 (Some (echo_response \<lparr>Method = ''POST'', URL = None, Header = 0,
                                     req_Body = Some (io_NopCloser ''1''), ctx = None\<rparr>)) =
       Inr None
   \<and> Json_Do_ParseJson any_Marshal any_Decode (any_float64 1) (any_int 0) echo_builder world1 =
       Inr (None, any_float64 1)"
proof -
  have h1: "request echo_builder =
     Some \<lparr>Method = ''POST'', URL = None, Header = 0, req_Body = None, ctx = None\<rparr>"
    and h2: "err echo_builder = None"
    and h3: "client echo_builder = Some (Injected echo)"
    and h7: "onResponseCheck echo_builder = Some Check200"
    by (simp_all add: echo_builder_simps)
  have h4: "any_Marshal (any_float64 1) = Inr ''1''"
    by (rule any_Marshal_float64_1)
  have h5: "any_Decode (io_NopCloser ''1'') (any_int 0) = (None, any_float64 1)"
    by (rule any_Decode_1)
  have h6: "\<forall>q' hs us. echo (Some q') hs us = (Some (echo_response q'), None)
      \<and> resp_Body (echo_response q') = req_Body q'"
    by (rule echo_is_echo)
  have h8: "\<forall>f q'. onResponseCheck echo_builder = Some f \<longrightarrow>
      f (Some (echo_response q')) = Inr None"
    by (rule Check200_echo_response)
  have h9: "Check200 (Some (echo_response \<lparr>Method = ''POST'', URL = None, Header = 0,
      req_Body = Some (io_NopCloser ''1''), ctx = None\<rparr>)) = Inr None"
    using h7 h8 by simp
  from h1 h2 h3 h4 h5 h6 h7 h9
    Json_roundtrip [where marshal = any_Marshal and decoder = any_Decode and R = echo_response
      and V = "any_float64 1" and i = "any_int 0" and w = world1, OF h1 h2 h3 h4 h5 h6 h8]
  show ?thesis by simp
qed

subsection \<open>Cloning\<close>

text \<open>
  Claim C6. The builder returned by \<^verbatim>\<open>Clone\<close> or \<^verbatim>\<open>CloneWithContext\<close> has no response hook,
  whatever hook the original has. So when the clone is executed and its client returns a
  response without error, \<^verbatim>\<open>Do\<close> returns that response unchecked.
\<close>

theorem Clone_drops_onResponseCheck:
  assumes "Clone r w = Inr (r2, w2) \<or> CloneWithContext c r w = Inr (r2, w2)"
  shows "onResponseCheck r2 = None
     \<and> (err r2 = None \<longrightarrow>
        Clienter_Do w' (client_or_default r2) (request r2) = (resp, None) \<longrightarrow>
        Do r2 w' = Inr ((Some (Response resp), None),
                        r2\<lparr>client := Some (client_or_default r2)\<rparr>,
                        w'\<lparr>calls := calls w' @ [(client_or_default r2, request r2)]\<rparr>))"
proof -
  from assms obtain c' where "CloneWithContext c' r w = Inr (r2, w2)"
    by (rule clone_cases)
  then have "onResponseCheck r2 = None"
    using CloneWithContext_Inr by blast
  then show ?thesis
    by (simp add: Do_unfold)
qed

theorem Clone_drops_onResponseCheck_witness:
  "(Clone checked_builder world1 = Inr (cloned_builder, world2)
      \<or> CloneWithContext (Some Background) checked_builder world1 = Inr (cloned_builder, world2))
   \<and> onResponseCheck checked_builder = Some Check200
   \<and> onResponseCheck cloned_builder = None
   \<and> err cloned_builder = None
   \<and> Clienter_Do world2 (client_or_default cloned_builder) (request cloned_builder) =
       (Some \<lparr>StatusCode = 404, Status = ''404 Not Found'',
              resp_Body = Some (io_NopCloser ''not found'')\<rparr>, None)
   \<and> Do cloned_builder world2 =
       Inr ((Some (Response (Some \<lparr>StatusCode = 404, Status = ''404 Not Found'',
                                    resp_Body = Some (io_NopCloser ''not found'')\<rparr>)), None),
            cloned_builder\<lparr>client := Some (client_or_default cloned_builder)\<rparr>,
            world2\<lparr>calls := calls world2 @
              [(client_or_default cloned_builder, request cloned_builder)]\<rparr>)
   \<and> fst (projr (Do checked_builder world2)) =
       (None, Some (fmt_Errorf ''[%v] %v'' [AInt 404, AStr ''404 Not Found'']))"
proof -
  have h1: "Clone checked_builder world1 = Inr (cloned_builder, world2)
      \<or> CloneWithContext (Some Background) checked_builder world1 = Inr (cloned_builder, world2)"
    by (simp add: Clone_checked_builder)
  have h2: "err cloned_builder = None"
    by (simp add: cloned_builder_simps)
  have h3: "Clienter_Do world2 (client_or_default cloned_builder) (request cloned_builder) =
       (Some \<lparr>StatusCode = 404, Status = ''404 Not Found'',
              resp_Body = Some (io_NopCloser ''not found'')\<rparr>, None)"
    by (simp add: Clienter_Do_def client_or_default_def cloned_builder_simps mock404_def)
  have h4: "fst (projr (Do checked_builder world2)) =
       (None, Some (fmt_Errorf ''[%v] %v'' [AInt 404, AStr ''404 Not Found'']))"
    by (simp add: Do_unfold checked_builder_simps client_or_default_def Clienter_Do_def
        mock404_def Check200_def)
  have h5: "onResponseCheck checked_builder = Some Check200"
    by (simp add: checked_builder_simps)
  from h1 h2 h3 h4 h5
    Clone_drops_onResponseCheck [OF h1, of world2
      "Some \<lparr>StatusCode = 404, Status = ''404 Not Found'',
              resp_Body = Some (io_NopCloser ''not found'')\<rparr>"]
  show ?thesis by simp
qed

text \<open>
  Claim C7. Let \<open>r2\<close> be the clone of a well-formed builder \<open>r\<close>. Right after the call the
  clone reads the same headers as the original, and the original's headers are as before.
  From then on, in any store, \<^verbatim>\<open>SetHeader\<close> on the original leaves what the clone's
  \<^verbatim>\<open>GetHeader\<close> reads unchanged, and \<^verbatim>\<open>SetHeader\<close> on the clone leaves what the original's
  \<^verbatim>\<open>GetHeader\<close> reads unchanged.
\<close>

theorem Clone_headers_independent:
  assumes wf: "wf_Request r w"
    and clone: "Clone r w = Inr (r2, w1) \<or> CloneWithContext c r w = Inr (r2, w1)"
  shows "GetHeader r2 w1 = GetHeader r w \<and> GetHeader r w1 = GetHeader r w
     \<and> (SetHeader key vals r w' = Inr (r', w'') \<longrightarrow> GetHeader r2 w'' = GetHeader r2 w')
     \<and> (SetHeader key2 vals2 r2 v' = Inr (r2', v'') \<longrightarrow> GetHeader r v'' = GetHeader r v')"
proof -
  from clone obtain c' where "CloneWithContext c' r w = Inr (r2, w1)"
    by (rule clone_cases)
  then obtain q q2 where q: "request r = Some q" and q2: "request r2 = Some q2"
    and cl: "http_Request_Clone c' (Some q) w = Inr (q2, w1)"
    using CloneWithContext_Inr by blast
  from wf q have lt: "Header q < Headers_next w"
    by (simp add: wf_Request_def)
  from http_Request_Clone_Inr [OF cl] have fresh: "Header q2 = Headers_next w"
    and same: "Headers w1 (Header q2) = Headers w (Header q)"
    and others: "\<And>a. a \<noteq> Headers_next w \<Longrightarrow> Headers w1 a = Headers w a"
    by blast+
  from lt fresh have ne: "Header q \<noteq> Header q2"
    by simp
  have 1: "GetHeader r2 w1 = GetHeader r w"
    using q q2 same by (simp add: GetHeader_def)
  have 2: "GetHeader r w1 = GetHeader r w"
    using q lt others [of "Header q"] by (simp add: GetHeader_def)
  have 3: "GetHeader r2 w'' = GetHeader r2 w'" if "SetHeader key vals r w' = Inr (r', w'')"
    using SetHeader_Inr [OF that] q q2 ne by (auto simp: GetHeader_def)
  have 4: "GetHeader r v'' = GetHeader r v'" if "SetHeader key2 vals2 r2 v' = Inr (r2', v'')"
    using SetHeader_Inr [OF that] q q2 ne by (auto simp: GetHeader_def)
  from 1 2 3 4 show ?thesis by blast
qed

theorem Clone_headers_independent_witness:
  "wf_Request new_builder world1
   \<and> (Clone new_builder world1 = Inr (cloned_new_builder, world2)
       \<or> CloneWithContext (Some Background) new_builder world1 = Inr (cloned_new_builder, world2))
   \<and> GetHeader cloned_new_builder world2 = GetHeader new_builder world1
   \<and> GetHeader new_builder world2 = GetHeader new_builder world1
   \<and> SetHeader ''X-Tag'' [''a''] new_builder world2 =
       Inr (new_builder, world2\<lparr>Headers := (Headers world2)(0 := [''X-Tag'' \<mapsto> [''a'']])\<rparr>)
   \<and> GetHeader cloned_new_builder
        (world2\<lparr>Headers := (Headers world2)(0 := [''X-Tag'' \<mapsto> [''a'']])\<rparr>) =
       GetHeader cloned_new_builder world2
   \<and> GetHeader new_builder
        (world2\<lparr>Headers := (Headers world2)(0 := [''X-Tag'' \<mapsto> [''a'']])\<rparr>) =
       Inr [''X-Tag'' \<mapsto> [''a'']]
   \<and> SetHeader ''X-Tag'' [''b''] cloned_new_builder world2 =
       Inr (cloned_new_builder,
            world2\<lparr>Headers := (Headers world2)(Suc 0 := [''X-Tag'' \<mapsto> [''b'']])\<rparr>)
   \<and> GetHeader new_builder
        (world2\<lparr>Headers := (Headers world2)(Suc 0 := [''X-Tag'' \<mapsto> [''b'']])\<rparr>) =
       GetHeader new_builder world2
   \<and> GetHeader cloned_new_builder
        (world2\<lparr>Headers := (Headers world2)(Suc 0 := [''X-Tag'' \<mapsto> [''b'']])\<rparr>) =
       Inr [''X-Tag'' \<mapsto> [''b'']]"
proof -
  have h1: "wf_Request new_builder world1"
    by (simp add: wf_Request_def new_builder_simps world1_simps)
  have h2: "Clone new_builder world1 = Inr (cloned_new_builder, world2)
       \<or> CloneWithContext (Some Background) new_builder world1 = Inr (cloned_new_builder, world2)"
    by (simp add: cloned_new_builder_def Clone_new_builder)
  have rq: "request cloned_new_builder =
      Some \<lparr>Method = [], URL = None, Header = Suc 0, req_Body = None, ctx = Some Background\<rparr>"
    by (simp add: cloned_new_builder_def Clone_new_builder)
  have hd: "Headers world2 0 = Map.empty" "Headers world2 (Suc 0) = Map.empty"
    by (simp_all add: world2_def Clone_def CloneWithContext_def http_Request_Clone_def
        http_Request_Context_def new_Header_def checked_builder_simps world1_simps)
  have h3: "SetHeader ''X-Tag'' [''a''] new_builder world2 =
       Inr (new_builder, world2\<lparr>Headers := (Headers world2)(0 := [''X-Tag'' \<mapsto> [''a'']])\<rparr>)"
    by (simp add: SetHeader_def new_builder_simps Header_Set_def canonical_X_Tag hd)
  have h4: "SetHeader ''X-Tag'' [''b''] cloned_new_builder world2 =
       Inr (cloned_new_builder,
            world2\<lparr>Headers := (Headers world2)(Suc 0 := [''X-Tag'' \<mapsto> [''b'']])\<rparr>)"
    by (simp add: SetHeader_def rq Header_Set_def canonical_X_Tag hd)
  have h5: "GetHeader new_builder
        (world2\<lparr>Headers := (Headers world2)(0 := [''X-Tag'' \<mapsto> [''a'']])\<rparr>) =
       Inr [''X-Tag'' \<mapsto> [''a'']]"
    by (simp add: GetHeader_def new_builder_simps)
  have h6: "GetHeader cloned_new_builder
        (world2\<lparr>Headers := (Headers world2)(Suc 0 := [''X-Tag'' \<mapsto> [''b'']])\<rparr>) =
       Inr [''X-Tag'' \<mapsto> [''b'']]"
    by (simp add: GetHeader_def rq)
  from h1 h2 h3 h4 h5 h6
    Clone_headers_independent [OF h1 h2, of "''X-Tag''" "[''a'']" world2 new_builder
      "world2\<lparr>Headers := (Headers world2)(0 := [''X-Tag'' \<mapsto> [''a'']])\<rparr>"
      "''X-Tag''" "[''b'']" world2 cloned_new_builder
      "world2\<lparr>Headers := (Headers world2)(Suc 0 := [''X-Tag'' \<mapsto> [''b'']])\<rparr>"]
  show ?thesis by simp
qed

subsection \<open>Query parameters without a URL\<close>

text \<open>
  Claim C8. On a builder whose request URL is nil, \<^verbatim>\<open>SetQueryParam\<close> stores the deferred
  error \<^verbatim>\<open>cannot add query param to nil url\<close> and returns normally; the request and the
  whole store, so every URL in it, are unchanged.
\<close>

theorem SetQueryParam_nil_url:
  "request r = Some q \<Longrightarrow> URL q = None \<Longrightarrow>
   SetQueryParam pq enc key v r w =
     Inr (r\<lparr>err := Some (errors_New ''cannot add query param to nil url'')\<rparr>, w)"
  by (simp add: SetQueryParam_def)

theorem SetQueryParam_nil_url_witness:
  "request new_builder =
     Some \<lparr>Method = [], URL = None, Header = 0, req_Body = None, ctx = None\<rparr>
   \<and> URL \<lparr>Method = [], URL = None, Header = 0, req_Body = None, ctx = None\<rparr> = None
   \<and> SetQueryParam standin_ParseQuery standin_Encode ''page'' ''2'' new_builder world1 =
       Inr (new_builder\<lparr>err := Some (errors_New ''cannot add query param to nil url'')\<rparr>,
            world1)"
proof -
  have h1: "request new_builder =
     Some \<lparr>Method = [], URL = None, Header = 0, req_Body = None, ctx = None\<rparr>"
    by (simp add: new_builder_simps)
  have h2: "URL \<lparr>Method = [], URL = None, Header = 0, req_Body = None, ctx = None\<rparr> = None"
    by simp
  from h1 h2 SetQueryParam_nil_url [OF h1 h2] show ?thesis by simp
qed

subsection \<open>The deferred error is sticky\<close>

text \<open>
  Claim C9. Once the deferred error is non-nil, it is non-nil after any sequence of
  configuration calls that returns (method setters, \<^verbatim>\<open>Url\<close>, \<^verbatim>\<open>SetHeader\<close>,
  \<^verbatim>\<open>SetQueryParam\<close>, \<^verbatim>\<open>Body\<close>, \<^verbatim>\<open>Json\<close>, \<^verbatim>\<open>SetClient\<close>, \<^verbatim>\<open>Context\<close>,
  \<^verbatim>\<open>OnResponseCheck\<close>, and the clone calls, whose result is the clone): each call keeps the
  stored error or replaces it by another error, none resets it to nil.
\<close>

theorem deferred_error_sticky:
  "err r \<noteq> None \<Longrightarrow> run_configs L cs r w = Inr (r', w') \<Longrightarrow> err r' \<noteq> None"
proof (induction cs arbitrary: r w)
  case Nil
  then show ?case by simp
next
  case (Cons c cs)
  from Cons.prems(2) obtain r1 w1 where
    step: "run_config L c r w = Inr (r1, w1)" and rest: "run_configs L cs r1 w1 = Inr (r', w')"
    by (auto split: sum.splits)
  from deferred_step [OF Cons.prems(1) step] have "err r1 \<noteq> None" .
  from Cons.IH [OF this rest] show ?case .
qed

theorem deferred_error_sticky_witness:
  "err failed_builder \<noteq> None
   \<and> run_configs standin_library sticky_calls failed_builder world1 =
       Inr (fst (projr sticky_run), snd (projr sticky_run))
   \<and> err (fst (projr sticky_run)) \<noteq> None
   \<and> err (fst (projr sticky_run)) = Some (errors_New ''cannot add query param to nil url'')"
proof -
  have h1: "err failed_builder \<noteq> None"
    by (simp add: failed_builder_simps)
  have h2: "run_configs standin_library sticky_calls failed_builder world1 =
       Inr (fst (projr sticky_run), snd (projr sticky_run))"
    using sticky_run_value by (simp add: sticky_run_def)
  from h1 h2 deferred_error_sticky [OF h1 h2] sticky_run_value show ?thesis by simp
qed

subsection \<open>Decoding a response\<close>

text \<open>
  Claim C10. For a response with a body: when decoding fails, \<^verbatim>\<open>ParseJson\<close> returns the
  decode error and does not close the body; when decoding succeeds, it closes the body and
  returns what \<^verbatim>\<open>Close\<close> returned. So a close error is returned only after a successful
  decode, and never in place of a decode error.
\<close>

theorem ParseJson_decode_before_close:
  assumes "resp_Body h = Some b"
  shows "(decoder b i = (Some e, i') \<longrightarrow>
            ParseJson decoder (Response (Some h)) i = Inr (Some e, Response (Some h), i'))
       \<and> (decoder b i = (None, i') \<longrightarrow>
            ParseJson decoder (Response (Some h)) i =
              Inr (close_error b,
                   Response (Some (h\<lparr>resp_Body := Some (b\<lparr>is_closed := True\<rparr>)\<rparr>)), i'))"
  using assms by (simp add: ParseJson_def Close_def)

theorem ParseJson_decode_before_close_witness:
  "resp_Body \<lparr>StatusCode = 200, Status = ''200 OK'', resp_Body = Some failing_read_body\<rparr> =
     Some failing_read_body
   \<and> raw_Decode failing_read_body [] = (Some (lib_error ''unexpected EOF''), [])
   \<and> ParseJson raw_Decode
       (Response (Some \<lparr>StatusCode = 200, Status = ''200 OK'',
                        resp_Body = Some failing_read_body\<rparr>)) [] =
       Inr (Some (lib_error ''unexpected EOF''),
            Response (Some \<lparr>StatusCode = 200, Status = ''200 OK'',
                             resp_Body = Some failing_read_body\<rparr>), [])
   \<and> resp_Body \<lparr>StatusCode = 200, Status = ''200 OK'', resp_Body = Some failing_close_body\<rparr> =
       Some failing_close_body
   \<and> raw_Decode failing_close_body [] = (None, ''[1,2,3]'')
   \<and> ParseJson raw_Decode
       (Response (Some \<lparr>StatusCode = 200, Status = ''200 OK'',
                        resp_Body = Some failing_close_body\<rparr>)) [] =
       Inr (Some (lib_error ''close failed''),
            Response (Some \<lparr>StatusCode = 200, Status = ''200 OK'',
                             resp_Body = Some (failing_close_body\<lparr>is_closed := True\<rparr>)\<rparr>),
            ''[1,2,3]'')"
proof -
  have h1: "resp_Body \<lparr>StatusCode = 200, Status = ''200 OK'',
      resp_Body = Some failing_read_body\<rparr> = Some failing_read_body"
    by simp
  have h2: "raw_Decode failing_read_body [] = (Some (lib_error ''unexpected EOF''), [])"
    by (simp add: raw_Decode_def failing_read_body_def)
  have h3: "resp_Body \<lparr>StatusCode = 200, Status = ''200 OK'',
      resp_Body = Some failing_close_body\<rparr> = Some failing_close_body"
    by simp
  have h4: "raw_Decode failing_close_body [] = (None, ''[1,2,3]'')"
    by (simp add: raw_Decode_def failing_close_body_def)
  have c: "close_error failing_close_body = Some (lib_error ''close failed'')"
    by (simp add: failing_close_body_def)
  from h1 h2 h3 h4 c
    ParseJson_decode_before_close [OF h1, of raw_Decode "[]" "lib_error ''unexpected EOF''" "[]"]
    ParseJson_decode_before_close [OF h3, of raw_Decode "[]" _ "''[1,2,3]''"]
  show ?thesis by simp
qed

end
